theory Spec2Isabelle
  imports Complex_Main "HOL-Library.Word" "HOL-Library.Multiset"
begin

section \<open>Data model (models/types.go)\<close>

text \<open>
  Instants of \<^verbatim>\<open>time.Time\<close> are integers, counted in nanoseconds on the process
  clock; a \<^verbatim>\<open>time.Duration\<close> is a signed 64-bit count of nanoseconds. The
  \<^verbatim>\<open>float64\<close> price fields are read as real numbers: the code only subtracts and
  compares them with zero, and the sign of a difference of two finite floats is the sign
  of the exact difference.
\<close>

type_synonym time = int
type_synonym duration = int

definition Second :: duration where
  "Second = 1000000000"

definition Minute :: duration where
  "Minute = 60 * Second"

definition maxDuration :: duration where
  "maxDuration = 2 ^ 63 - 1"

definition minDuration :: duration where
  "minDuration = - (2 ^ 63)"

record OHLCData =
  Timestamp :: time
  Open :: real
  High :: real
  Low :: real
  Close :: real
  Volume :: int

text \<open>The fields of \<^verbatim>\<open>OHLCVAnalysis\<close> carry a prefix: a record field is a constant
  and \<^verbatim>\<open>OHLCData\<close> has taken the plain names.\<close>

record OHLCVAnalysis =
  aOpen :: real
  aHigh :: real
  aLow :: real
  aClose :: real
  aVolume :: int
  aExplanation :: string

record TradingSignal =
  Signal :: string
  BuyPrice :: real
  TargetPrice :: real
  StopLoss :: real
  Confidence :: int
  NewsSummary :: string
  Reason :: string
  StockSymbol :: string
  GeneratedAt :: time
  Analysis :: "OHLCVAnalysis option"

record Config =
  TelegramChatID :: string
  SignalCooldownMins :: int
  MinConfidenceLevel :: int
  StockSymbols :: "string list"

record SignalSummary =
  TotalAnalyzed :: int
  BuySignals :: "TradingSignal list"
  SellSignals :: "TradingSignal list"
  HoldSignals :: "TradingSignal list"
  FailedSignals :: "string list"
  SummaryGeneratedAt :: time

text \<open>A Go \<^verbatim>\<open>error\<close>: a message, or a message wrapping another error
  (\<^verbatim>\<open>fmt.Errorf("...: %w", err)\<close>).\<close>

datatype error = ErrMsg string | Wrap string error

section \<open>The service state and the outside world\<close>

text \<open>
  Formatted Telegram texts are kept as the sequence of blocks the \<^verbatim>\<open>Sprintf\<close>
  templates put together, each block with the values printed into it.
\<close>

datatype emoji = Green | Red | Yellow | White

datatype segment =
    SignalTitle emoji string string
  | Prices real real real
  | RiskReward real real real
  | ConfidenceReason int string
  | OHLCVBlock OHLCVAnalysis
  | GeneratedAtFooter time
  | SummaryHeader int nat nat nat nat time
  | BuyHeader
  | BuyLine string int real real real "real option"
  | SellHeader
  | SellLine string int real "real option"
  | HoldHeader
  | HoldLine string int
  | FailedHeader
  | FailedLine string
  | SummaryFooter
  | RequestReceived int int time

type_synonym message = "segment list"

text \<open>Every outbound call and every sleep is appended to a trace, oldest first.\<close>

datatype event =
    EvFetch string
  | EvGenerateContent string
  | EvSend string message
  | EvSleep duration

text \<open>
  The mutable state: the \<^verbatim>\<open>signalCache\<close> map of the service struct, the clock,
  the trace, and the state \<open>ext\<close> of the remote services, which only the remote calls
  change.
\<close>

record 'x state =
  signalCache :: "string \<rightharpoonup> time"
  clock :: time
  trace :: "event list"
  ext :: 'x

section \<open>Cooldown cache (canGenerateSignal, updateSignalCache)\<close>

text \<open>\<^verbatim>\<open>time.Duration(t.config.SignalCooldownMins) * time.Minute\<close>: a product of
  64-bit integers, which wraps.\<close>

definition cooldownDuration :: "Config \<Rightarrow> duration" where
  "cooldownDuration cfg =
     sint (word_of_int (SignalCooldownMins cfg) * word_of_int Minute :: 64 word)"

text \<open>\<^verbatim>\<open>t.Sub(u)\<close> saturates at the largest and smallest duration;
  \<^verbatim>\<open>time.Since(t)\<close> is \<^verbatim>\<open>time.Now().Sub(t)\<close>.\<close>

definition Sub :: "time \<Rightarrow> time \<Rightarrow> duration" where
  "Sub t u =
     (let d = t - u
      in if d > maxDuration then maxDuration
         else if d < minDuration then minDuration
         else d)"

definition Since :: "'x state \<Rightarrow> time \<Rightarrow> duration" where
  "Since st t = Sub (clock st) t"

definition canGenerateSignal :: "Config \<Rightarrow> 'x state \<Rightarrow> string \<Rightarrow> bool" where
  "canGenerateSignal cfg st symbol =
     (case signalCache st symbol of
        None \<Rightarrow> True
      | Some lastSignal \<Rightarrow>
          (let cooldownDuration = cooldownDuration cfg
           in Since st lastSignal \<ge> cooldownDuration))"



section \<open>String helpers of the Go library, on ASCII text\<close>

text \<open>
  A \<open>string\<close> is a list of bytes, as a Go string is. \<^verbatim>\<open>strings.ToUpper\<close> and
  \<^verbatim>\<open>strings.TrimSpace\<close> are given for ASCII text (bytes outside ASCII are left as
  they are); \<^verbatim>\<open>strings.Index\<close>, \<^verbatim>\<open>strings.LastIndex\<close> and
  \<^verbatim>\<open>strings.Split\<close> are given for a separator of one byte, which is how the code
  calls them.
\<close>

definition upper_byte :: "char \<Rightarrow> char" where
  "upper_byte c =
     (let n = (of_char c :: nat)
      in if 97 \<le> n \<and> n \<le> 122 then char_of (n - 32) else c)"

definition ToUpper :: "string \<Rightarrow> string" where
  "ToUpper s = map upper_byte s"



fun Index :: "string \<Rightarrow> char \<Rightarrow> int" where
  "Index [] c = - 1"
| "Index (x # xs) c =
     (if x = c then 0
      else (let r = Index xs c in if r = - 1 then - 1 else r + 1))"

definition LastIndex :: "string \<Rightarrow> char \<Rightarrow> int" where
  "LastIndex s c =
     (let r = Index (rev s) c
      in if r = - 1 then - 1 else int (length s) - 1 - r)"


section \<open>Results and remote services\<close>

text \<open>
  A call returns a value, returns an error, or panics. The goroutines the service starts
  for a batch run have no \<^verbatim>\<open>recover\<close>: a panic inside one ends the run, and the process
  with it.
\<close>

datatype 'a res = Ok 'a | Err error | Panic

text \<open>The part of a Gemini response the code reads.\<close>

datatype Part = Text string | OtherPart

record Content =
  Parts :: "Part list"

record Candidate =
  CandidateContent :: Content

record GenerateContentResponse =
  Candidates :: "Candidate list"

text \<open>
  The remote services and library functions the code calls are parameters. A remote call
  reads and changes the outside state and takes some time: it returns its result, its
  latency and the new outside state.
  \<^item> \<open>fetchOHLC\<close>: all of \<^verbatim>\<open>YahooFinanceService.FetchOHLCData\<close>, a single HTTP
    round trip to Yahoo Finance and the decoding of the reply;
  \<^item> \<open>buildPrompt\<close>: the text \<^verbatim>\<open>GeminiAIService.buildPrompt\<close> prints;
  \<^item> \<open>generateContent\<close>: \<^verbatim>\<open>g.model.GenerateContent\<close>;
  \<^item> \<open>jsonUnmarshal\<close>: \<^verbatim>\<open>json.Unmarshal\<close> into a \<^verbatim>\<open>TradingSignal\<close>;
  \<^item> \<open>httpPost\<close>: the POST of \<^verbatim>\<open>sendMessage\<close> to the Telegram API, with the chat
    and the text; an error stands for a failed request or a status other than 200.
\<close>

record 'x env =
  fetchOHLC :: "string \<Rightarrow> 'x \<Rightarrow> (error + OHLCData list) \<times> nat \<times> 'x"
  buildPrompt :: "string \<Rightarrow> OHLCData list \<Rightarrow> string"
  generateContent :: "string \<Rightarrow> 'x \<Rightarrow> (error + GenerateContentResponse) \<times> nat \<times> 'x"
  jsonUnmarshal :: "string \<Rightarrow> error + TradingSignal"
  httpPost :: "string \<Rightarrow> message \<Rightarrow> 'x \<Rightarrow> error option \<times> nat \<times> 'x"

definition FetchOHLCData ::
  "'x env \<Rightarrow> string \<Rightarrow> 'x state \<Rightarrow> (error + OHLCData list) \<times> 'x state" where
  "FetchOHLCData env symbol st =
     (case fetchOHLC env symbol (ext st) of
        (r, d, x) \<Rightarrow>
          (r, st\<lparr>clock := clock st + int d, trace := trace st @ [EvFetch symbol], ext := x\<rparr>))"

definition GenerateContent ::
  "'x env \<Rightarrow> string \<Rightarrow> 'x state \<Rightarrow> (error + GenerateContentResponse) \<times> 'x state" where
  "GenerateContent env prompt st =
     (case generateContent env prompt (ext st) of
        (r, d, x) \<Rightarrow>
          (r, st\<lparr>clock := clock st + int d, trace := trace st @ [EvGenerateContent prompt],
                 ext := x\<rparr>))"

text \<open>\<^verbatim>\<open>time.Sleep(d)\<close> pauses for at least \<open>d\<close>; the model pauses for \<open>d\<close>.\<close>

definition Sleep :: "duration \<Rightarrow> 'x state \<Rightarrow> 'x state" where
  "Sleep d st = st\<lparr>clock := clock st + d, trace := trace st @ [EvSleep d]\<rparr>"

section \<open>Signal inference (services/gemini\_ai.go)\<close>

text \<open>
  \<^verbatim>\<open>text[start : end+1]\<close> panics when \<^verbatim>\<open>end+1 < start\<close>, which the test
  against \<^verbatim>\<open>-1\<close> does not exclude.
\<close>

definition parseSignalResponse :: "'x env \<Rightarrow> string \<Rightarrow> TradingSignal res" where
  "parseSignalResponse env text =
     (let start = Index text (CHR ''{'');
          end = LastIndex text (CHR ''}'')
      in if start = - 1 \<or> end = - 1 then Err (ErrMsg ''no JSON found in response'')
         else if end + 1 < start then Panic
         else (let jsonStr = take (nat (end + 1 - start)) (drop (nat start) text)
               in case jsonUnmarshal env jsonStr of
                    Inl err \<Rightarrow> Err (Wrap ''failed to unmarshal signal JSON'' err)
                  | Inr signal \<Rightarrow> Ok signal))"

definition GenerateTradingSignal ::
  "'x env \<Rightarrow> string \<Rightarrow> OHLCData list \<Rightarrow> 'x state \<Rightarrow> TradingSignal res \<times> 'x state" where
  "GenerateTradingSignal env symbol ohlcData st =
     (let prompt = buildPrompt env symbol ohlcData
      in case GenerateContent env prompt st of
           (Inl err, st1) \<Rightarrow> (Err (Wrap ''failed to generate content'' err), st1)
         | (Inr resp, st1) \<Rightarrow>
             (case Candidates resp of
                [] \<Rightarrow> (Err (ErrMsg ''no response generated from Gemini''), st1)
              | candidate # _ \<Rightarrow>
                  (case Parts (CandidateContent candidate) of
                     [] \<Rightarrow> (Err (ErrMsg ''no content parts in response''), st1)
                   | part # _ \<Rightarrow>
                       (let text = (case part of Text s \<Rightarrow> s | OtherPart \<Rightarrow> [])
                        in case parseSignalResponse env text of
                             Err err \<Rightarrow> (Err (Wrap ''failed to parse signal response'' err), st1)
                           | Panic \<Rightarrow> (Panic, st1)
                           | Ok signal \<Rightarrow>
                               (Ok (signal\<lparr>StockSymbol := symbol, GeneratedAt := clock st1\<rparr>),
                                st1)))))"

section \<open>Message formatting and delivery (TelegramService)\<close>

text \<open>\<^verbatim>\<open>calculateRiskRewardRatio\<close> returns risk, reward, ratio and an error; every
  \<^verbatim>\<open>return\<close> of the source gives \<^verbatim>\<open>nil\<close> as the error.\<close>

definition calculateRiskRewardRatio :: "TradingSignal \<Rightarrow> real \<times> real \<times> real \<times> error option" where
  "calculateRiskRewardRatio signal =
     (if Signal signal = ''WAIT'' then (0, 0, 0, None)
      else (case (if Signal signal = ''BUY''
                  then Some (BuyPrice signal - StopLoss signal, TargetPrice signal - BuyPrice signal)
                  else if Signal signal = ''SELL''
                  then Some (StopLoss signal - BuyPrice signal, BuyPrice signal - TargetPrice signal)
                  else None) of
              None \<Rightarrow> (0, 0, 0, None)
            | Some (risk, reward) \<Rightarrow>
                if risk \<le> 0 then (0, 0, 0, None)
                else if reward \<le> 0 then (0, 0, 0, None)
                else (risk, reward, reward / risk, None)))"

definition formatSignalMessage :: "TradingSignal \<Rightarrow> message" where
  "formatSignalMessage signal =
     (let emoji = (if ToUpper (Signal signal) = ''BUY'' then Green
                   else if ToUpper (Signal signal) = ''SELL'' then Red
                   else if ToUpper (Signal signal) = ''WAIT'' then Yellow
                   else White)
      in [SignalTitle emoji (ToUpper (Signal signal)) (StockSymbol signal),
          Prices (BuyPrice signal) (TargetPrice signal) (StopLoss signal)]
         @ (if Signal signal \<noteq> ''WAIT''
            then (case calculateRiskRewardRatio signal of
                    (risk, reward, ratio, err) \<Rightarrow>
                      if err = None then [RiskReward risk reward ratio] else [])
            else [])
         @ [ConfidenceReason (Confidence signal) (Reason signal)]
         @ (case Analysis signal of
              None \<Rightarrow> []
            | Some a \<Rightarrow> [OHLCVBlock a])
         @ [GeneratedAtFooter (GeneratedAt signal)])"

definition formatSummaryMessage :: "SignalSummary \<Rightarrow> message" where
  "formatSummaryMessage summary =
     [SummaryHeader (TotalAnalyzed summary) (length (BuySignals summary))
        (length (SellSignals summary)) (length (HoldSignals summary))
        (length (FailedSignals summary)) (SummaryGeneratedAt summary)]
     @ (if length (BuySignals summary) > 0
        then BuyHeader #
             map (\<lambda>signal.
                    case calculateRiskRewardRatio signal of
                      (_, _, ratio, err) \<Rightarrow>
                        BuyLine (StockSymbol signal) (Confidence signal) (BuyPrice signal)
                          (TargetPrice signal) (StopLoss signal)
                          (if err = None then Some ratio else None))
               (BuySignals summary)
        else [])
     @ (if length (SellSignals summary) > 0
        then SellHeader #
             map (\<lambda>signal.
                    case calculateRiskRewardRatio signal of
                      (_, _, ratio, err) \<Rightarrow>
                        SellLine (StockSymbol signal) (Confidence signal) (StopLoss signal)
                          (if err = None then Some ratio else None))
               (SellSignals summary)
        else [])
     @ (if length (HoldSignals summary) > 0
        then HoldHeader #
             map (\<lambda>signal. HoldLine (StockSymbol signal) (Confidence signal))
               (HoldSignals summary)
        else [])
     @ (if length (FailedSignals summary) > 0
        then FailedHeader # map FailedLine (FailedSignals summary)
        else [])
     @ [SummaryFooter]"

definition sendMessage ::
  "'x env \<Rightarrow> Config \<Rightarrow> message \<Rightarrow> 'x state \<Rightarrow> error option \<times> 'x state" where
  "sendMessage env cfg message st =
     (case httpPost env (TelegramChatID cfg) message (ext st) of
        (r, d, x) \<Rightarrow>
          (r, st\<lparr>clock := clock st + int d,
                 trace := trace st @ [EvSend (TelegramChatID cfg) message], ext := x\<rparr>))"

definition SendTradingSignal ::
  "'x env \<Rightarrow> Config \<Rightarrow> TradingSignal \<Rightarrow> 'x state \<Rightarrow> error option \<times> 'x state" where
  "SendTradingSignal env cfg signal st = sendMessage env cfg (formatSignalMessage signal) st"

definition SendSignalSummary ::
  "'x env \<Rightarrow> Config \<Rightarrow> SignalSummary \<Rightarrow> 'x state \<Rightarrow> error option \<times> 'x state" where
  "SendSignalSummary env cfg summary st = sendMessage env cfg (formatSummaryMessage summary) st"

text \<open>Go's \<^verbatim>\<open>/\<close> on integers truncates; the count of stocks is not negative, where
  \<open>div\<close> agrees with it.\<close>

definition SendRequestReceivedMessage ::
  "'x env \<Rightarrow> Config \<Rightarrow> int \<Rightarrow> 'x state \<Rightarrow> error option \<times> 'x state" where
  "SendRequestReceivedMessage env cfg totalStocks st =
     sendMessage env cfg
       [RequestReceived totalStocks ((totalStocks * 3) div 60 + 1) (clock st)] st"

section \<open>Signal orchestration (TradingSignalService)\<close>

text \<open>
  The \<^verbatim>\<open>log.Printf\<close> lines of this service write to the process log only and are
  left out. The block of \<^verbatim>\<open>GenerateSignal\<close> that sent the signal to Telegram is
  commented out in the source, so the function sends nothing.
\<close>

definition GenerateSignal ::
  "'x env \<Rightarrow> string \<Rightarrow> 'x state \<Rightarrow> TradingSignal res \<times> 'x state" where
  "GenerateSignal env symbol st =
     (case FetchOHLCData env symbol st of
        (Inl err, st1) \<Rightarrow> (Err (Wrap ''failed to fetch OHLC data'' err), st1)
      | (Inr ohlcData, st1) \<Rightarrow>
          if length ohlcData = 0
          then (Err (ErrMsg (''no OHLC data available for '' @ symbol)), st1)
          else (case GenerateTradingSignal env symbol ohlcData st1 of
                  (Err err, st2) \<Rightarrow> (Err (Wrap ''failed to generate AI signal'' err), st2)
                | (Panic, st2) \<Rightarrow> (Panic, st2)
                | (Ok signal, st2) \<Rightarrow> (Ok signal, st2)))"

text \<open>The four local slices of a batch run.\<close>

record buckets =
  buySignals :: "TradingSignal list"
  sellSignals :: "TradingSignal list"
  holdSignals :: "TradingSignal list"
  failedSignals :: "string list"

definition no_signals :: buckets where
  "no_signals = \<lparr>buySignals = [], sellSignals = [], holdSignals = [], failedSignals = []\<rparr>"

text \<open>The \<^verbatim>\<open>switch strings.ToUpper(signal.Signal)\<close>, the same in both loops.\<close>

definition categorize :: "buckets \<Rightarrow> TradingSignal \<Rightarrow> buckets" where
  "categorize b signal =
     (let s = ToUpper (Signal signal)
      in if s = ''BUY'' then b\<lparr>buySignals := buySignals b @ [signal]\<rparr>
         else if s = ''SELL'' then b\<lparr>sellSignals := sellSignals b @ [signal]\<rparr>
         else if s = ''WAIT'' \<or> s = ''HOLD'' then b\<lparr>holdSignals := holdSignals b @ [signal]\<rparr>
         else b\<lparr>holdSignals := holdSignals b @ [signal]\<rparr>)"

text \<open>
  The loop \<^verbatim>\<open>for i, symbol := range t.config.StockSymbols\<close> of
  \<^verbatim>\<open>GenerateAllSignals\<close>: \<open>i\<close> is the index of the head of the symbols still to
  do. \<^verbatim>\<open>continue\<close> on a failure goes to the next symbol past the sleep at the end
  of the body. \<open>None\<close> is a run ended by a panic.
\<close>

fun GenerateAllSignals_loop ::
  "'x env \<Rightarrow> Config \<Rightarrow> nat \<Rightarrow> string list \<Rightarrow> buckets \<Rightarrow> 'x state
   \<Rightarrow> (buckets \<times> 'x state) option" where
  "GenerateAllSignals_loop env cfg i [] b st = Some (b, st)"
| "GenerateAllSignals_loop env cfg i (symbol # rest) b st =
     (case GenerateSignal env symbol st of
        (Err err, st1) \<Rightarrow>
          GenerateAllSignals_loop env cfg (i + 1) rest
            (b\<lparr>failedSignals := failedSignals b @ [symbol]\<rparr>) st1
      | (Panic, st1) \<Rightarrow> None
      | (Ok signal, st1) \<Rightarrow>
          GenerateAllSignals_loop env cfg (i + 1) rest (categorize b signal)
            (if int i < int (length (StockSymbols cfg)) - 1
             then Sleep (3 * Second) st1 else st1))"

text \<open>The body of the goroutine \<^verbatim>\<open>GenerateAllSignals\<close> starts: the summary it builds
  and the state it leaves. The result of sending the summary is only logged.\<close>

definition GenerateAllSignals ::
  "'x env \<Rightarrow> Config \<Rightarrow> 'x state \<Rightarrow> (SignalSummary \<times> 'x state) option" where
  "GenerateAllSignals env cfg st =
     (case GenerateAllSignals_loop env cfg 0 (StockSymbols cfg) no_signals st of
        None \<Rightarrow> None
      | Some (b, st1) \<Rightarrow>
          (let summary = \<lparr>TotalAnalyzed = int (length (StockSymbols cfg)),
                          BuySignals = buySignals b,
                          SellSignals = sellSignals b,
                          HoldSignals = holdSignals b,
                          FailedSignals = failedSignals b,
                          SummaryGeneratedAt = clock st1\<rparr>
           in case SendSignalSummary env cfg summary st1 of
                (err, st2) \<Rightarrow> Some (summary, st2)))"

text \<open>The loop of \<^verbatim>\<open>GenerateAllSignalsSummary\<close>, which fetches and infers in place.\<close>

fun GenerateAllSignalsSummary_loop ::
  "'x env \<Rightarrow> Config \<Rightarrow> nat \<Rightarrow> string list \<Rightarrow> buckets \<Rightarrow> 'x state
   \<Rightarrow> (buckets \<times> 'x state) option" where
  "GenerateAllSignalsSummary_loop env cfg i [] b st = Some (b, st)"
| "GenerateAllSignalsSummary_loop env cfg i (symbol # rest) b st =
     (case FetchOHLCData env symbol st of
        (Inl err, st1) \<Rightarrow>
          GenerateAllSignalsSummary_loop env cfg (i + 1) rest
            (b\<lparr>failedSignals := failedSignals b @ [symbol]\<rparr>) st1
      | (Inr ohlcData, st1) \<Rightarrow>
          if length ohlcData = 0
          then GenerateAllSignalsSummary_loop env cfg (i + 1) rest
                 (b\<lparr>failedSignals := failedSignals b @ [symbol]\<rparr>) st1
          else (case GenerateTradingSignal env symbol ohlcData st1 of
                  (Err err, st2) \<Rightarrow>
                    GenerateAllSignalsSummary_loop env cfg (i + 1) rest
                      (b\<lparr>failedSignals := failedSignals b @ [symbol]\<rparr>) st2
                | (Panic, st2) \<Rightarrow> None
                | (Ok signal, st2) \<Rightarrow>
                    GenerateAllSignalsSummary_loop env cfg (i + 1) rest (categorize b signal)
                      (if int i < int (length (StockSymbols cfg)) - 1
                       then Sleep (3 * Second) st2 else st2)))"

definition GenerateAllSignalsSummary ::
  "'x env \<Rightarrow> Config \<Rightarrow> 'x state \<Rightarrow> (SignalSummary \<times> 'x state) option" where
  "GenerateAllSignalsSummary env cfg st =
     (case SendRequestReceivedMessage env cfg (int (length (StockSymbols cfg))) st of
        (err0, st0) \<Rightarrow>
          (case GenerateAllSignalsSummary_loop env cfg 0 (StockSymbols cfg) no_signals st0 of
             None \<Rightarrow> None
           | Some (b, st1) \<Rightarrow>
               (let summary = \<lparr>TotalAnalyzed = int (length (StockSymbols cfg)),
                               BuySignals = buySignals b,
                               SellSignals = sellSignals b,
                               HoldSignals = holdSignals b,
                               FailedSignals = failedSignals b,
                               SummaryGeneratedAt = clock st1\<rparr>
                in case SendSignalSummary env cfg summary st1 of
                     (err, st2) \<Rightarrow> Some (summary, st2))))"

definition GetConfiguredStocks :: "Config \<Rightarrow> string list" where
  "GetConfiguredStocks cfg = StockSymbols cfg"

text \<open>The symbols a set of buckets accounts for: those stamped on the signals of the three
  signal buckets, then the failed ones.\<close>

definition bucket_symbols :: "buckets \<Rightarrow> string list" where
  "bucket_symbols b =
     map StockSymbol (buySignals b) @ map StockSymbol (sellSignals b)
     @ map StockSymbol (holdSignals b) @ failedSignals b"

text \<open>Reading a trace: the symbols fetched, the texts delivered and the time slept, in
  order.\<close>

fun fetched :: "event list \<Rightarrow> string list" where
  "fetched [] = []"
| "fetched (EvFetch symbol # es) = symbol # fetched es"
| "fetched (e # es) = fetched es"

fun sent :: "event list \<Rightarrow> message list" where
  "sent [] = []"
| "sent (EvSend chat m # es) = m # sent es"
| "sent (e # es) = sent es"

fun slept :: "event list \<Rightarrow> duration" where
  "slept [] = 0"
| "slept (EvSleep d # es) = d + slept es"
| "slept (e # es) = slept es"

section \<open>Trigger scheduler (services/cron\_scheduler.go)\<close>


datatype logline =
    LogStarting
  | LogConfiguredTimes "string list"
  | LogInvalidTimeFormat string
  | LogAddingCronJob string string
  | LogFailedToAdd string error
  | LogStarted nat
  | LogStopping
  | LogTimezoneFallback error

record CronScheduler =
  scheduleTimes :: "string list"
  timezone :: string
  entries :: "string list"
  running :: bool
  logs :: "logline list"



definition logPrintf :: "logline \<Rightarrow> CronScheduler \<Rightarrow> CronScheduler" where
  "logPrintf l cs = cs\<lparr>logs := logs cs @ [l]\<rparr>"



definition Stop :: "CronScheduler \<Rightarrow> CronScheduler" where
  "Stop cs = (logPrintf LogStopping cs)\<lparr>running := False\<rparr>"




section \<open>Concrete inputs\<close>

text \<open>A configuration with a cooldown of fifteen minutes and a state with an empty cache.\<close>

definition demo_cfg :: "string list \<Rightarrow> Config" where
  "demo_cfg symbols =
     \<lparr>TelegramChatID = ''42'', SignalCooldownMins = 15, MinConfidenceLevel = 70,
      StockSymbols = symbols\<rparr>"

definition demo_st :: "nat state" where
  "demo_st = \<lparr>signalCache = Map.empty, clock = 0, trace = [], ext = 0\<rparr>"

definition demo_bar :: OHLCData where
  "demo_bar = \<lparr>Timestamp = 0, Open = 100, High = 110, Low = 90, Close = 105, Volume = 1000\<rparr>"

definition demo_signal :: "string \<Rightarrow> TradingSignal" where
  "demo_signal direction =
     \<lparr>Signal = direction, BuyPrice = 100, TargetPrice = 120, StopLoss = 90, Confidence = 80,
      NewsSummary = [], Reason = ''breakout'', StockSymbol = [], GeneratedAt = 0,
      Analysis = None\<rparr>"

text \<open>
  Remote services for the examples; the outside state counts the calls made. The quote
  source has no data for B and an empty series for E; inference is refused for F; the
  model answers D with the text \<^verbatim>\<open>} {\<close> and every other symbol with the symbol in
  braces, which decodes to a BUY for A, a lower-case sell for C and an unknown direction
  for G. A fetch takes 2 ns, an inference 5 ns, a delivery 1 ns.
\<close>

definition demo_env :: "nat env" where
  "demo_env =
     \<lparr>fetchOHLC = (\<lambda>symbol x.
        (if symbol = ''B'' then Inl (ErrMsg ''Yahoo Finance API returned status: 404'')
         else if symbol = ''E'' then Inr []
         else Inr [demo_bar], 2, x + 1)),
      buildPrompt = (\<lambda>symbol ohlcData. symbol),
      generateContent = (\<lambda>prompt x.
        (if prompt = ''F'' then Inl (ErrMsg ''quota exceeded'')
         else Inr \<lparr>Candidates =
                [\<lparr>CandidateContent =
                    \<lparr>Parts = [Text (if prompt = ''D'' then ''} {''
                                     else ''{'' @ prompt @ ''}'')]\<rparr>\<rparr>]\<rparr>, 5, x + 1)),
      jsonUnmarshal = (\<lambda>jsonStr.
        if jsonStr = ''{A}'' then Inr (demo_signal ''BUY'')
        else if jsonStr = ''{C}'' then Inr (demo_signal ''sell'')
        else if jsonStr = ''{G}'' then Inr (demo_signal ''maybe'')
        else Inl (ErrMsg ''invalid character'')),
      httpPost = (\<lambda>chat message x. (None, 1, x + 1))\<rparr>"

text \<open>The summary and the final state of the batch run over A, B, C and G.\<close>

definition demo_summary :: SignalSummary where
  "demo_summary =
     \<lparr>TotalAnalyzed = 4,
      BuySignals = [(demo_signal ''BUY'')\<lparr>StockSymbol := ''A'', GeneratedAt := 7\<rparr>],
      SellSignals = [(demo_signal ''sell'')\<lparr>StockSymbol := ''C'', GeneratedAt := 3000000016\<rparr>],
      HoldSignals = [(demo_signal ''maybe'')\<lparr>StockSymbol := ''G'', GeneratedAt := 6000000023\<rparr>],
      FailedSignals = [''B''],
      SummaryGeneratedAt = 6000000023\<rparr>"

definition demo_final :: "nat state" where
  "demo_final =
     demo_st\<lparr>clock := 6000000024, ext := 8,
       trace :=
         [EvFetch ''A'', EvGenerateContent ''A'', EvSleep 3000000000,
          EvFetch ''B'',
          EvFetch ''C'', EvGenerateContent ''C'', EvSleep 3000000000,
          EvFetch ''G'', EvGenerateContent ''G'',
          EvSend ''42''
            [SummaryHeader 4 1 1 1 1 6000000023,
             BuyHeader, BuyLine ''A'' 80 100 120 90 (Some 2),
             SellHeader, SellLine ''C'' 80 90 (Some 0),
             HoldHeader, HoldLine ''G'' 80,
             FailedHeader, FailedLine ''B'',
             SummaryFooter]]\<rparr>"





section \<open>Properties of the cooldown cache\<close>


text \<open>Up to 153722867 minutes the product does not wrap.\<close>

lemma cooldownDuration_small:
  assumes "0 \<le> SignalCooldownMins cfg" and "SignalCooldownMins cfg \<le> 153722867"
  shows "cooldownDuration cfg = SignalCooldownMins cfg * Minute"
proof -
  let ?m = "SignalCooldownMins cfg"
  have lo: "- (2 ^ 63) \<le> ?m * 60000000000"
    using assms by simp
  have "?m * 60000000000 \<le> 153722867 * 60000000000"
    using assms by simp
  then have hi: "?m * 60000000000 < 2 ^ 63"
    by simp
  have "(word_of_int ?m * word_of_int Minute :: 64 word) = word_of_int (?m * Minute)"
    by (simp only: of_int_mult)
  then have "cooldownDuration cfg = signed_take_bit 63 (?m * Minute)"
    unfolding cooldownDuration_def
    by (simp only: signed_of_int) simp
  then have "cooldownDuration cfg = signed_take_bit 63 (?m * 60000000000)"
    by (simp add: Minute_def Second_def)
  also have "\<dots> = ?m * 60000000000"
    using lo hi by (simp add: signed_take_bit_int_eq_self)
  finally show ?thesis
    by (simp add: Minute_def Second_def)
qed

lemma cooldownDuration_demo: "cooldownDuration (demo_cfg symbols) = 900000000000"
  by (simp add: cooldownDuration_small demo_cfg_def Minute_def Second_def)

lemma Sub_nonneg: "u \<le> t \<Longrightarrow> Sub t u = min (t - u) maxDuration"
  by (simp add: Sub_def Let_def minDuration_def maxDuration_def)




section \<open>The cache is outside every orchestration step\<close>

lemma FetchOHLCData_frame:
  "FetchOHLCData env symbol (st\<lparr>signalCache := c\<rparr>) =
     (case FetchOHLCData env symbol st of (r, st') \<Rightarrow> (r, st'\<lparr>signalCache := c\<rparr>))"
  by (simp add: FetchOHLCData_def split: prod.splits)

lemma GenerateContent_frame:
  "GenerateContent env prompt (st\<lparr>signalCache := c\<rparr>) =
     (case GenerateContent env prompt st of (r, st') \<Rightarrow> (r, st'\<lparr>signalCache := c\<rparr>))"
  by (simp add: GenerateContent_def split: prod.splits)

lemma sendMessage_frame:
  "sendMessage env cfg m (st\<lparr>signalCache := c\<rparr>) =
     (case sendMessage env cfg m st of (r, st') \<Rightarrow> (r, st'\<lparr>signalCache := c\<rparr>))"
  by (simp add: sendMessage_def split: prod.splits)

lemma Sleep_frame:
  "Sleep d (st\<lparr>signalCache := c\<rparr>) = (Sleep d st)\<lparr>signalCache := c\<rparr>"
  by (simp add: Sleep_def)

lemma GenerateTradingSignal_frame:
  "GenerateTradingSignal env symbol ohlcData (st\<lparr>signalCache := c\<rparr>) =
     (case GenerateTradingSignal env symbol ohlcData st of
        (r, st') \<Rightarrow> (r, st'\<lparr>signalCache := c\<rparr>))"
  by (simp add: GenerateTradingSignal_def GenerateContent_frame Let_def GenerateContent_def
      split: prod.splits sum.splits list.splits res.splits)

lemma GenerateSignal_frame:
  "GenerateSignal env symbol (st\<lparr>signalCache := c\<rparr>) =
     (case GenerateSignal env symbol st of (r, st') \<Rightarrow> (r, st'\<lparr>signalCache := c\<rparr>))"
  by (simp add: GenerateSignal_def FetchOHLCData_frame GenerateTradingSignal_frame
      split: prod.splits sum.splits res.splits)

lemma FetchOHLCData_cache:
  "FetchOHLCData env symbol st = (r, st') \<Longrightarrow> signalCache st' = signalCache st"
  by (auto simp: FetchOHLCData_def split: prod.splits)

lemma GenerateContent_cache:
  "GenerateContent env prompt st = (r, st') \<Longrightarrow> signalCache st' = signalCache st"
  by (auto simp: GenerateContent_def split: prod.splits)

lemma sendMessage_cache:
  "sendMessage env cfg m st = (r, st') \<Longrightarrow> signalCache st' = signalCache st"
  by (auto simp: sendMessage_def split: prod.splits)

lemma GenerateTradingSignal_cache:
  "GenerateTradingSignal env symbol ohlcData st = (r, st') \<Longrightarrow> signalCache st' = signalCache st"
  by (auto simp: GenerateTradingSignal_def Let_def dest: GenerateContent_cache
      split: prod.splits sum.splits list.splits res.splits)

lemma GenerateSignal_cache:
  assumes "GenerateSignal env symbol st = (r, st')"
  shows "signalCache st' = signalCache st"
proof -
  obtain f st1 where f: "FetchOHLCData env symbol st = (f, st1)"
    by (cases "FetchOHLCData env symbol st")
  then have c1: "signalCache st1 = signalCache st"
    by (rule FetchOHLCData_cache)
  show ?thesis
  proof (cases f)
    case (Inl err)
    with assms f c1 show ?thesis
      by (simp add: GenerateSignal_def)
  next
    case (Inr ohlcData)
    obtain g st2 where g: "GenerateTradingSignal env symbol ohlcData st1 = (g, st2)"
      by (cases "GenerateTradingSignal env symbol ohlcData st1")
    then have "signalCache st2 = signalCache st1"
      by (rule GenerateTradingSignal_cache)
    with assms f c1 Inr g show ?thesis
      by (auto simp: GenerateSignal_def split: if_splits res.splits)
  qed
qed

lemma GenerateTradingSignal_stamp:
  "GenerateTradingSignal env symbol ohlcData st = (Ok signal, st') \<Longrightarrow>
     StockSymbol signal = symbol \<and> GeneratedAt signal = clock st'"
  by (auto simp: GenerateTradingSignal_def Let_def
      split: prod.splits sum.splits list.splits res.splits)

lemma GenerateSignal_stamp:
  "GenerateSignal env symbol st = (Ok signal, st') \<Longrightarrow>
     StockSymbol signal = symbol \<and> GeneratedAt signal = clock st'"
  by (auto simp: GenerateSignal_def dest: GenerateTradingSignal_stamp
      split: prod.splits sum.splits res.splits if_splits)

lemma Summary_loop_eq:
  "GenerateAllSignalsSummary_loop env cfg i symbols b st =
   GenerateAllSignals_loop env cfg i symbols b st"
proof (induction symbols arbitrary: i b st)
  case Nil
  show ?case by simp
next
  case (Cons symbol rest)
  show ?case
    by (simp add: GenerateSignal_def Cons.IH split: prod.splits sum.splits res.splits)
qed

lemma loop_frame:
  "GenerateAllSignals_loop env cfg i symbols b (st\<lparr>signalCache := c\<rparr>) =
     map_option (\<lambda>(b', st'). (b', st'\<lparr>signalCache := c\<rparr>))
       (GenerateAllSignals_loop env cfg i symbols b st)"
proof (induction symbols arbitrary: i b st)
  case Nil
  show ?case by simp
next
  case (Cons symbol rest)
  show ?case
    by (simp add: GenerateSignal_frame Cons.IH Sleep_frame split: prod.splits res.splits)
qed

lemma loop_cache:
  "GenerateAllSignals_loop env cfg i symbols b st = Some (b', st') \<Longrightarrow>
     signalCache st' = signalCache st"
proof (induction symbols arbitrary: i b st)
  case Nil
  then show ?case by simp
next
  case (Cons symbol rest)
  obtain r st1 where g: "GenerateSignal env symbol st = (r, st1)"
    by (cases "GenerateSignal env symbol st")
  have c1: "signalCache st1 = signalCache st"
    using g by (rule GenerateSignal_cache)
  show ?case
  proof (cases r)
    case (Ok signal)
    with Cons.prems g have
      "GenerateAllSignals_loop env cfg (i + 1) rest (categorize b signal)
         (if int i < int (length (StockSymbols cfg)) - 1 then Sleep (3 * Second) st1 else st1)
       = Some (b', st')"
      by simp
    from Cons.IH [OF this] c1 show ?thesis
      by (simp add: Sleep_def split: if_splits)
  next
    case (Err err)
    with Cons.prems g have
      "GenerateAllSignals_loop env cfg (i + 1) rest
         (b\<lparr>failedSignals := failedSignals b @ [symbol]\<rparr>) st1 = Some (b', st')"
      by simp
    from Cons.IH [OF this] c1 show ?thesis by simp
  next
    case Panic
    with Cons.prems g show ?thesis by simp
  qed
qed

section \<open>Batch runs: every symbol lands in one bucket\<close>

lemma categorize_symbols:
  "mset (bucket_symbols (categorize b signal)) = mset (bucket_symbols b) + {#StockSymbol signal#}"
  by (simp add: categorize_def bucket_symbols_def Let_def)

lemma failed_symbols:
  "mset (bucket_symbols (b\<lparr>failedSignals := failedSignals b @ [symbol]\<rparr>)) =
     mset (bucket_symbols b) + {#symbol#}"
  by (simp add: bucket_symbols_def)

lemma loop_partition:
  "GenerateAllSignals_loop env cfg i symbols b st = Some (b', st') \<Longrightarrow>
     mset (bucket_symbols b') = mset (bucket_symbols b) + mset symbols"
proof (induction symbols arbitrary: i b st)
  case Nil
  then show ?case by simp
next
  case (Cons symbol rest)
  obtain r st1 where g: "GenerateSignal env symbol st = (r, st1)"
    by (cases "GenerateSignal env symbol st")
  show ?case
  proof (cases r)
    case (Ok signal)
    with g have sym: "StockSymbol signal = symbol"
      by (simp add: GenerateSignal_stamp)
    from Cons.prems g Ok have
      "GenerateAllSignals_loop env cfg (i + 1) rest (categorize b signal)
         (if int i < int (length (StockSymbols cfg)) - 1 then Sleep (3 * Second) st1 else st1)
       = Some (b', st')"
      by simp
    from Cons.IH [OF this] sym show ?thesis
      by (simp add: categorize_symbols)
  next
    case (Err err)
    with Cons.prems g have
      "GenerateAllSignals_loop env cfg (i + 1) rest
         (b\<lparr>failedSignals := failedSignals b @ [symbol]\<rparr>) st1 = Some (b', st')"
      by simp
    from Cons.IH [OF this] show ?thesis
      by (simp add: failed_symbols)
  next
    case Panic
    with Cons.prems g show ?thesis by simp
  qed
qed

text \<open>What a completed run of either variant returns, in terms of the loop.\<close>

lemma GenerateAllSignals_Some:
  assumes "GenerateAllSignals env cfg st = Some (s, st')"
  obtains b st1 where
    "GenerateAllSignals_loop env cfg 0 (StockSymbols cfg) no_signals st = Some (b, st1)"
    "s = \<lparr>TotalAnalyzed = int (length (StockSymbols cfg)), BuySignals = buySignals b,
          SellSignals = sellSignals b, HoldSignals = holdSignals b,
          FailedSignals = failedSignals b, SummaryGeneratedAt = clock st1\<rparr>"
    "st' = snd (SendSignalSummary env cfg s st1)"
  using assms
  by (auto simp: GenerateAllSignals_def Let_def split: option.splits prod.splits)

lemma GenerateAllSignalsSummary_Some:
  assumes "GenerateAllSignalsSummary env cfg st = Some (s, st')"
  obtains b st1 where
    "GenerateAllSignals_loop env cfg 0 (StockSymbols cfg) no_signals
       (snd (SendRequestReceivedMessage env cfg (int (length (StockSymbols cfg))) st))
     = Some (b, st1)"
    "s = \<lparr>TotalAnalyzed = int (length (StockSymbols cfg)), BuySignals = buySignals b,
          SellSignals = sellSignals b, HoldSignals = holdSignals b,
          FailedSignals = failedSignals b, SummaryGeneratedAt = clock st1\<rparr>"
    "st' = snd (SendSignalSummary env cfg s st1)"
  using assms
  by (auto simp: GenerateAllSignalsSummary_def Summary_loop_eq Let_def
      split: option.splits prod.splits)

lemma summary_of_buckets:
  assumes "mset (bucket_symbols b) = mset symbols"
    and "s = \<lparr>TotalAnalyzed = int (length symbols), BuySignals = buySignals b,
          SellSignals = sellSignals b, HoldSignals = holdSignals b,
          FailedSignals = failedSignals b, SummaryGeneratedAt = t\<rparr>"
  shows "int (length (BuySignals s) + length (SellSignals s) + length (HoldSignals s)
              + length (FailedSignals s)) = TotalAnalyzed s
         \<and> TotalAnalyzed s = int (length symbols)
         \<and> mset (map StockSymbol (BuySignals s) @ map StockSymbol (SellSignals s)
                 @ map StockSymbol (HoldSignals s) @ FailedSignals s) = mset symbols"
proof -
  have "length (bucket_symbols b) = length symbols"
    using assms(1) by (metis size_mset)
  with assms show ?thesis
    by (simp add: bucket_symbols_def)
qed

text \<open>
  C1. A completed batch run of either variant returns a summary whose four buckets
  together hold as many entries as \<open>TotalAnalyzed\<close>, which is the number of
  configured symbols; and the symbols of the signals in the three signal buckets together
  with the failed symbols are the configured symbols, each as often as it is configured:
  every input symbol is in one bucket and in one only.
\<close>

theorem batch_summary_partition:
  assumes "GenerateAllSignals env cfg st = Some (s, st')
           \<or> GenerateAllSignalsSummary env cfg st = Some (s, st')"
  shows "int (length (BuySignals s) + length (SellSignals s) + length (HoldSignals s)
              + length (FailedSignals s)) = TotalAnalyzed s
         \<and> TotalAnalyzed s = int (length (StockSymbols cfg))
         \<and> mset (map StockSymbol (BuySignals s) @ map StockSymbol (SellSignals s)
                 @ map StockSymbol (HoldSignals s) @ FailedSignals s)
             = mset (StockSymbols cfg)"
  using assms
proof
  assume "GenerateAllSignals env cfg st = Some (s, st')"
  then obtain b st1 where
    l: "GenerateAllSignals_loop env cfg 0 (StockSymbols cfg) no_signals st = Some (b, st1)"
    and s: "s = \<lparr>TotalAnalyzed = int (length (StockSymbols cfg)), BuySignals = buySignals b,
          SellSignals = sellSignals b, HoldSignals = holdSignals b,
          FailedSignals = failedSignals b, SummaryGeneratedAt = clock st1\<rparr>"
    by (rule GenerateAllSignals_Some)
  from loop_partition [OF l] have "mset (bucket_symbols b) = mset (StockSymbols cfg)"
    by (simp add: bucket_symbols_def no_signals_def)
  then show ?thesis using s by (rule summary_of_buckets)
next
  assume "GenerateAllSignalsSummary env cfg st = Some (s, st')"
  then obtain b st1 where
    l: "GenerateAllSignals_loop env cfg 0 (StockSymbols cfg) no_signals
       (snd (SendRequestReceivedMessage env cfg (int (length (StockSymbols cfg))) st))
     = Some (b, st1)"
    and s: "s = \<lparr>TotalAnalyzed = int (length (StockSymbols cfg)), BuySignals = buySignals b,
          SellSignals = sellSignals b, HoldSignals = holdSignals b,
          FailedSignals = failedSignals b, SummaryGeneratedAt = clock st1\<rparr>"
    by (rule GenerateAllSignalsSummary_Some)
  from loop_partition [OF l] have "mset (bucket_symbols b) = mset (StockSymbols cfg)"
    by (simp add: bucket_symbols_def no_signals_def)
  then show ?thesis using s by (rule summary_of_buckets)
qed


section \<open>The example run\<close>

lemma ToUpper_demo:
  "ToUpper ''BUY'' = ''BUY''" "ToUpper ''sell'' = ''SELL''" "ToUpper ''maybe'' = ''MAYBE''"
  by code_simp+

lemmas demo_defs =
  GenerateAllSignals_def GenerateAllSignalsSummary_def GenerateSignal_def FetchOHLCData_def
  GenerateTradingSignal_def GenerateContent_def parseSignalResponse_def LastIndex_def
  SendSignalSummary_def SendRequestReceivedMessage_def sendMessage_def Sleep_def Second_def
  categorize_def no_signals_def Let_def
  demo_env_def demo_st_def demo_cfg_def demo_signal_def ToUpper_demo

lemma demo_run:
  "GenerateAllSignals demo_env (demo_cfg [''A'', ''B'', ''C'', ''G'']) demo_st
   = Some (demo_summary, demo_final)"
  by (simp add: demo_defs demo_summary_def demo_final_def formatSummaryMessage_def
      calculateRiskRewardRatio_def)

theorem batch_summary_partition_witness:
  "GenerateAllSignals demo_env (demo_cfg [''A'', ''B'', ''C'', ''G'']) demo_st
     = Some (demo_summary, demo_final)
   \<and> int (length (BuySignals demo_summary) + length (SellSignals demo_summary)
          + length (HoldSignals demo_summary) + length (FailedSignals demo_summary)) = 4
   \<and> TotalAnalyzed demo_summary = 4
   \<and> mset (map StockSymbol (BuySignals demo_summary) @ map StockSymbol (SellSignals demo_summary)
           @ map StockSymbol (HoldSignals demo_summary) @ FailedSignals demo_summary)
       = mset [''A'', ''B'', ''C'', ''G'']"
  using batch_summary_partition
          [of demo_env "demo_cfg [''A'', ''B'', ''C'', ''G'']" demo_st demo_summary demo_final]
        demo_run
  by (simp add: demo_cfg_def)

section \<open>Batch runs: the bucket follows the upper-cased direction\<close>






section \<open>No orchestration step reads or writes the cache\<close>

lemma SendSignalSummary_frame:
  "SendSignalSummary env cfg s (st\<lparr>signalCache := c\<rparr>) =
     (case SendSignalSummary env cfg s st of (r, st') \<Rightarrow> (r, st'\<lparr>signalCache := c\<rparr>))"
  by (simp add: SendSignalSummary_def sendMessage_frame)

lemma SendRequestReceivedMessage_frame:
  "SendRequestReceivedMessage env cfg n (st\<lparr>signalCache := c\<rparr>) =
     (case SendRequestReceivedMessage env cfg n st of (r, st') \<Rightarrow> (r, st'\<lparr>signalCache := c\<rparr>))"
  by (simp add: SendRequestReceivedMessage_def sendMessage_frame)

lemma GenerateAllSignals_frame:
  "GenerateAllSignals env cfg (st\<lparr>signalCache := c\<rparr>) =
     map_option (\<lambda>(s, st'). (s, st'\<lparr>signalCache := c\<rparr>)) (GenerateAllSignals env cfg st)"
  by (simp add: GenerateAllSignals_def loop_frame SendSignalSummary_frame Let_def
      split: option.splits prod.splits)

lemma GenerateAllSignalsSummary_frame:
  "GenerateAllSignalsSummary env cfg (st\<lparr>signalCache := c\<rparr>) =
     map_option (\<lambda>(s, st'). (s, st'\<lparr>signalCache := c\<rparr>)) (GenerateAllSignalsSummary env cfg st)"
proof -
  let ?n = "int (length (StockSymbols cfg))"
  obtain e0 st0 where r0: "SendRequestReceivedMessage env cfg ?n st = (e0, st0)"
    by (cases "SendRequestReceivedMessage env cfg ?n st")
  then have r0': "SendRequestReceivedMessage env cfg ?n (st\<lparr>signalCache := c\<rparr>)
                  = (e0, st0\<lparr>signalCache := c\<rparr>)"
    by (simp add: SendRequestReceivedMessage_frame)
  show ?thesis
  proof (cases "GenerateAllSignals_loop env cfg 0 (StockSymbols cfg) no_signals st0")
    case None
    with r0 r0' show ?thesis
      by (simp add: GenerateAllSignalsSummary_def Summary_loop_eq loop_frame)
  next
    case (Some p)
    obtain b st1 where p: "p = (b, st1)" by (cases p)
    with Some r0 r0' show ?thesis
      by (simp add: GenerateAllSignalsSummary_def Summary_loop_eq loop_frame
          SendSignalSummary_frame Let_def split: prod.splits)
  qed
qed

lemma GenerateAllSignals_cache:
  assumes "GenerateAllSignals env cfg st = Some (s, st')"
  shows "signalCache st' = signalCache st"
proof -
  from assms obtain b st1 where
    l: "GenerateAllSignals_loop env cfg 0 (StockSymbols cfg) no_signals st = Some (b, st1)"
    and st': "st' = snd (SendSignalSummary env cfg s st1)"
    by (rule GenerateAllSignals_Some)
  have "signalCache st' = signalCache st1"
    unfolding st' SendSignalSummary_def
    by (rule sendMessage_cache) (rule surjective_pairing)
  with loop_cache [OF l] show ?thesis by simp
qed

lemma GenerateAllSignalsSummary_cache:
  assumes "GenerateAllSignalsSummary env cfg st = Some (s, st')"
  shows "signalCache st' = signalCache st"
proof -
  let ?st0 = "snd (SendRequestReceivedMessage env cfg (int (length (StockSymbols cfg))) st)"
  from assms obtain b st1 where
    l: "GenerateAllSignals_loop env cfg 0 (StockSymbols cfg) no_signals ?st0 = Some (b, st1)"
    and st': "st' = snd (SendSignalSummary env cfg s st1)"
    by (rule GenerateAllSignalsSummary_Some)
  have "signalCache st' = signalCache st1"
    unfolding st' SendSignalSummary_def
    by (rule sendMessage_cache) (rule surjective_pairing)
  moreover have "signalCache ?st0 = signalCache st"
    unfolding SendRequestReceivedMessage_def
    by (rule sendMessage_cache) (rule surjective_pairing)
  ultimately show ?thesis using loop_cache [OF l] by simp
qed

text \<open>
  C10. \<open>GenerateSignal\<close> and both batch runs leave the cache map as they found it, and they
  do not read it: started with any other cache \<open>c\<close> in place of the state's own, each
  returns the same result and leaves the same state, but for the cache, which is still
  \<open>c\<close>. So whether \<open>canGenerateSignal\<close> would allow a symbol changes nothing.
\<close>

theorem orchestration_ignores_cache:
  "(GenerateSignal env symbol st = (r, st1) \<longrightarrow>
      signalCache st1 = signalCache st
      \<and> GenerateSignal env symbol (st\<lparr>signalCache := c\<rparr>) = (r, st1\<lparr>signalCache := c\<rparr>))
   \<and> (GenerateAllSignals env cfg st = Some (s, st') \<longrightarrow> signalCache st' = signalCache st)
   \<and> GenerateAllSignals env cfg (st\<lparr>signalCache := c\<rparr>)
       = map_option (\<lambda>(s, st'). (s, st'\<lparr>signalCache := c\<rparr>)) (GenerateAllSignals env cfg st)
   \<and> (GenerateAllSignalsSummary env cfg st = Some (s, st') \<longrightarrow> signalCache st' = signalCache st)
   \<and> GenerateAllSignalsSummary env cfg (st\<lparr>signalCache := c\<rparr>)
       = map_option (\<lambda>(s, st'). (s, st'\<lparr>signalCache := c\<rparr>))
           (GenerateAllSignalsSummary env cfg st)"
  by (simp add: GenerateSignal_cache GenerateSignal_frame GenerateAllSignals_cache
      GenerateAllSignals_frame GenerateAllSignalsSummary_cache GenerateAllSignalsSummary_frame)

lemma demo_single:
  "GenerateSignal demo_env ''A'' demo_st
   = (Ok ((demo_signal ''BUY'')\<lparr>StockSymbol := ''A'', GeneratedAt := 7\<rparr>),
      demo_st\<lparr>clock := 7, ext := 2, trace := [EvFetch ''A'', EvGenerateContent ''A'']\<rparr>)"
  by (simp add: demo_defs)

theorem orchestration_ignores_cache_witness:
  "\<not> canGenerateSignal (demo_cfg [''A'']) (demo_st\<lparr>signalCache := [''A'' \<mapsto> 0]\<rparr>) ''A''
   \<and> GenerateSignal demo_env ''A'' (demo_st\<lparr>signalCache := [''A'' \<mapsto> 0]\<rparr>)
     = (Ok ((demo_signal ''BUY'')\<lparr>StockSymbol := ''A'', GeneratedAt := 7\<rparr>),
        demo_st\<lparr>clock := 7, ext := 2, trace := [EvFetch ''A'', EvGenerateContent ''A''],
                signalCache := [''A'' \<mapsto> 0]\<rparr>)
   \<and> GenerateAllSignals demo_env (demo_cfg [''A'', ''B'', ''C'', ''G''])
        (demo_st\<lparr>signalCache := [''A'' \<mapsto> 0]\<rparr>)
     = Some (demo_summary, demo_final\<lparr>signalCache := [''A'' \<mapsto> 0]\<rparr>)
   \<and> signalCache demo_final = signalCache demo_st"
  using orchestration_ignores_cache
          [of demo_env "''A''" demo_st
              "Ok ((demo_signal ''BUY'')\<lparr>StockSymbol := ''A'', GeneratedAt := 7\<rparr>)"
              "demo_st\<lparr>clock := 7, ext := 2, trace := [EvFetch ''A'', EvGenerateContent ''A'']\<rparr>"
              "[''A'' \<mapsto> 0]" "demo_cfg [''A'', ''B'', ''C'', ''G'']" demo_summary demo_final]
        demo_single demo_run
  by (simp add: canGenerateSignal_def Since_def Sub_nonneg cooldownDuration_demo demo_st_def
      maxDuration_def)

section \<open>Risk and reward in the formatted signal\<close>

lemma calculateRiskRewardRatio_error:
  "snd (snd (snd (calculateRiskRewardRatio signal))) = None"
  by (simp add: calculateRiskRewardRatio_def split: option.splits prod.splits)

lemma calculateRiskRewardRatio_BUY:
  assumes "Signal signal = ''BUY''"
    and "0 < BuyPrice signal - StopLoss signal"
    and "0 < TargetPrice signal - BuyPrice signal"
  shows "calculateRiskRewardRatio signal
         = (BuyPrice signal - StopLoss signal, TargetPrice signal - BuyPrice signal,
            (TargetPrice signal - BuyPrice signal) / (BuyPrice signal - StopLoss signal), None)"
  using assms by (simp add: calculateRiskRewardRatio_def)

lemma calculateRiskRewardRatio_SELL:
  assumes "Signal signal = ''SELL''"
    and "0 < StopLoss signal - BuyPrice signal"
    and "0 < BuyPrice signal - TargetPrice signal"
  shows "calculateRiskRewardRatio signal
         = (StopLoss signal - BuyPrice signal, BuyPrice signal - TargetPrice signal,
            (BuyPrice signal - TargetPrice signal) / (StopLoss signal - BuyPrice signal), None)"
  using assms by (simp add: calculateRiskRewardRatio_def)

lemma calculateRiskRewardRatio_BUY_nonpositive:
  assumes "Signal signal = ''BUY''"
    and "BuyPrice signal - StopLoss signal \<le> 0 \<or> TargetPrice signal - BuyPrice signal \<le> 0"
  shows "calculateRiskRewardRatio signal = (0, 0, 0, None)"
  using assms by (auto simp: calculateRiskRewardRatio_def)

text \<open>Since the error is never set, every signal other than a literal WAIT is printed
  with the risk-reward block.\<close>

lemma formatSignalMessage_ratio_block:
  assumes "Signal signal \<noteq> ''WAIT''"
  shows "\<exists>risk reward ratio. RiskReward risk reward ratio \<in> set (formatSignalMessage signal)"
proof -
  obtain risk reward ratio err where
    c: "calculateRiskRewardRatio signal = (risk, reward, ratio, err)"
    by (metis surj_pair)
  with calculateRiskRewardRatio_error [of signal] have "err = None"
    by simp
  with c assms have "RiskReward risk reward ratio \<in> set (formatSignalMessage signal)"
    by (simp add: formatSignalMessage_def Let_def)
  then show ?thesis by blast
qed

text \<open>
  C3. The code at a BUY signal whose stop (110) is above its entry (100), so that the
  risk is not positive: \<open>calculateRiskRewardRatio\<close> returns zeros and no error, and the
  formatted signal carries the risk-reward block with risk 0, reward 0 and ratio 0.
\<close>

theorem nonpositive_risk_prints_zero_ratio:
  "calculateRiskRewardRatio ((demo_signal ''BUY'')\<lparr>StopLoss := 110\<rparr>) = (0, 0, 0, None)
   \<and> formatSignalMessage ((demo_signal ''BUY'')\<lparr>StopLoss := 110\<rparr>)
     = [SignalTitle Green ''BUY'' [], Prices 100 120 110, RiskReward 0 0 0,
        ConfidenceReason 80 ''breakout'', GeneratedAtFooter 0]"
  by (simp add: calculateRiskRewardRatio_def formatSignalMessage_def demo_signal_def
      ToUpper_demo)

section \<open>Single-symbol generation\<close>

lemma fetched_append: "fetched (es @ es') = fetched es @ fetched es'"
  by (induction es rule: fetched.induct) simp_all

lemma sent_append: "sent (es @ es') = sent es @ sent es'"
  by (induction es rule: sent.induct) simp_all

lemma slept_append: "slept (es @ es') = slept es + slept es'"
  by (induction es rule: slept.induct) simp_all

lemma GenerateSignal_fetch_error:
  assumes "fetchOHLC env symbol (ext st) = (Inl err, d, x)"
  shows "GenerateSignal env symbol st
         = (Err (Wrap ''failed to fetch OHLC data'' err),
            st\<lparr>clock := clock st + int d, trace := trace st @ [EvFetch symbol], ext := x\<rparr>)"
  using assms by (simp add: GenerateSignal_def FetchOHLCData_def)

lemma GenerateSignal_no_bars:
  assumes "fetchOHLC env symbol (ext st) = (Inr [], d, x)"
  shows "GenerateSignal env symbol st
         = (Err (ErrMsg (''no OHLC data available for '' @ symbol)),
            st\<lparr>clock := clock st + int d, trace := trace st @ [EvFetch symbol], ext := x\<rparr>)"
  using assms by (simp add: GenerateSignal_def FetchOHLCData_def)

lemma GenerateSignal_inference_error:
  assumes "FetchOHLCData env symbol st = (Inr ohlcData, st1)" and "ohlcData \<noteq> []"
    and "GenerateTradingSignal env symbol ohlcData st1 = (Err err, st2)"
  shows "GenerateSignal env symbol st = (Err (Wrap ''failed to generate AI signal'' err), st2)"
  using assms by (simp add: GenerateSignal_def)

lemma GenerateContent_trace:
  "GenerateContent env prompt st = (r, st') \<Longrightarrow> trace st' = trace st @ [EvGenerateContent prompt]"
  by (auto simp: GenerateContent_def split: prod.splits)

lemma GenerateTradingSignal_trace:
  "GenerateTradingSignal env symbol ohlcData st = (r, st') \<Longrightarrow>
     trace st' = trace st @ [EvGenerateContent (buildPrompt env symbol ohlcData)]"
  by (auto simp: GenerateTradingSignal_def Let_def dest: GenerateContent_trace
      split: prod.splits sum.splits list.splits res.splits)

text \<open>Whatever the outcome, one call of \<open>GenerateSignal\<close> fetches once, sends nothing and
  does not sleep.\<close>

lemma GenerateSignal_trace:
  assumes "GenerateSignal env symbol st = (r, st')"
  shows "fetched (trace st') = fetched (trace st) @ [symbol]
         \<and> sent (trace st') = sent (trace st)
         \<and> slept (trace st') = slept (trace st)"
proof -
  obtain f st1 where f: "FetchOHLCData env symbol st = (f, st1)"
    by (cases "FetchOHLCData env symbol st")
  then have t1: "trace st1 = trace st @ [EvFetch symbol]"
    by (auto simp: FetchOHLCData_def split: prod.splits)
  show ?thesis
  proof (cases f)
    case (Inl err)
    with assms f t1 show ?thesis
      by (auto simp: GenerateSignal_def fetched_append sent_append slept_append)
  next
    case (Inr ohlcData)
    obtain g st2 where g: "GenerateTradingSignal env symbol ohlcData st1 = (g, st2)"
      by (cases "GenerateTradingSignal env symbol ohlcData st1")
    then have "trace st2 = trace st1 @ [EvGenerateContent (buildPrompt env symbol ohlcData)]"
      by (rule GenerateTradingSignal_trace)
    with assms f t1 Inr g show ?thesis
      by (auto simp: GenerateSignal_def fetched_append sent_append slept_append
          split: if_splits res.splits)
  qed
qed

text \<open>
  C9. The code at symbol D, whose quote fetch succeeds and whose model answer is the
  text \<^verbatim>\<open>} {\<close>: the first opening brace (index 2) lies behind the last closing brace
  (index 0), the slice panics, and \<open>GenerateSignal\<close> returns neither an error nor a
  signal.
\<close>

theorem unparsable_answer_panics:
  "Index ''} {'' (CHR ''{'') = 2 \<and> LastIndex ''} {'' (CHR ''}'') = 0
   \<and> parseSignalResponse demo_env ''} {'' = Panic
   \<and> GenerateSignal demo_env ''D'' demo_st
     = (Panic, demo_st\<lparr>clock := 7, ext := 2,
                        trace := [EvFetch ''D'', EvGenerateContent ''D'']\<rparr>)"
  by (simp add: demo_defs)

section \<open>Batch runs: failures, deliveries and pauses\<close>

lemma loop_failure_continues:
  assumes "GenerateSignal env symbol st = (Err err, st1)"
  shows "GenerateAllSignals_loop env cfg i (symbol # rest) b st
         = GenerateAllSignals_loop env cfg (i + 1) rest
             (b\<lparr>failedSignals := failedSignals b @ [symbol]\<rparr>) st1"
  using assms by simp

lemma loop_append:
  "GenerateAllSignals_loop env cfg i (xs @ ys) b st
   = (case GenerateAllSignals_loop env cfg i xs b st of
        None \<Rightarrow> None
      | Some (b1, st1) \<Rightarrow> GenerateAllSignals_loop env cfg (i + length xs) ys b1 st1)"
proof (induction xs arbitrary: i b st)
  case Nil
  show ?case by simp
next
  case (Cons x xs)
  show ?case
    by (simp add: Cons.IH split: prod.splits res.splits cong: option.case_cong)
qed

lemma categorize_failed: "failedSignals (categorize b signal) = failedSignals b"
  by (simp add: categorize_def Let_def)

lemma loop_failed_grows:
  "GenerateAllSignals_loop env cfg i symbols b st = Some (b', st') \<Longrightarrow>
     set (failedSignals b) \<subseteq> set (failedSignals b')"
proof (induction symbols arbitrary: i b st)
  case Nil
  then show ?case by simp
next
  case (Cons symbol rest)
  obtain r st1 where g: "GenerateSignal env symbol st = (r, st1)"
    by (cases "GenerateSignal env symbol st")
  show ?case
  proof (cases r)
    case (Ok signal)
    with Cons.prems g have
      "GenerateAllSignals_loop env cfg (i + 1) rest (categorize b signal)
         (if int i < int (length (StockSymbols cfg)) - 1 then Sleep (3 * Second) st1 else st1)
       = Some (b', st')"
      by simp
    from Cons.IH [OF this] show ?thesis
      by (simp add: categorize_failed)
  next
    case (Err err)
    with Cons.prems g have
      "GenerateAllSignals_loop env cfg (i + 1) rest
         (b\<lparr>failedSignals := failedSignals b @ [symbol]\<rparr>) st1 = Some (b', st')"
      by simp
    from Cons.IH [OF this] show ?thesis by simp
  next
    case Panic
    with Cons.prems g show ?thesis by simp
  qed
qed

text \<open>
  A symbol whose generation returns an error, anywhere in the list: the loop goes on with
  the symbols behind it, and a run that completes has it in the failed list.
\<close>

lemma loop_error_isolated:
  assumes "GenerateAllSignals_loop env cfg i xs b st = Some (b1, st1)"
    and "GenerateSignal env symbol st1 = (Err err, st2)"
  shows "GenerateAllSignals_loop env cfg i (xs @ symbol # ys) b st
         = GenerateAllSignals_loop env cfg (i + length xs + 1) ys
             (b1\<lparr>failedSignals := failedSignals b1 @ [symbol]\<rparr>) st2"
    and "GenerateAllSignals_loop env cfg i (xs @ symbol # ys) b st = Some (b', st')
         \<Longrightarrow> symbol \<in> set (failedSignals b')"
proof -
  show eq: "GenerateAllSignals_loop env cfg i (xs @ symbol # ys) b st
         = GenerateAllSignals_loop env cfg (i + length xs + 1) ys
             (b1\<lparr>failedSignals := failedSignals b1 @ [symbol]\<rparr>) st2"
    using assms by (simp add: loop_append)
  assume "GenerateAllSignals_loop env cfg i (xs @ symbol # ys) b st = Some (b', st')"
  with eq have "GenerateAllSignals_loop env cfg (i + length xs + 1) ys
             (b1\<lparr>failedSignals := failedSignals b1 @ [symbol]\<rparr>) st2 = Some (b', st')"
    by simp
  from loop_failed_grows [OF this] show "symbol \<in> set (failedSignals b')"
    by simp
qed

text \<open>A completed loop has fetched every symbol, in order, has delivered nothing, and has
  kept the clock from going back.\<close>

lemma loop_trace:
  "GenerateAllSignals_loop env cfg i symbols b st = Some (b', st') \<Longrightarrow>
     fetched (trace st') = fetched (trace st) @ symbols
     \<and> sent (trace st') = sent (trace st)"
proof (induction symbols arbitrary: i b st)
  case Nil
  then show ?case by simp
next
  case (Cons symbol rest)
  obtain r st1 where g: "GenerateSignal env symbol st = (r, st1)"
    by (cases "GenerateSignal env symbol st")
  note t1 = GenerateSignal_trace [OF g]
  show ?case
  proof (cases r)
    case (Ok signal)
    with Cons.prems g have
      "GenerateAllSignals_loop env cfg (i + 1) rest (categorize b signal)
         (if int i < int (length (StockSymbols cfg)) - 1 then Sleep (3 * Second) st1 else st1)
       = Some (b', st')"
      by simp
    from Cons.IH [OF this] t1 show ?thesis
      by (simp add: Sleep_def fetched_append sent_append split: if_splits)
  next
    case (Err err)
    with Cons.prems g have
      "GenerateAllSignals_loop env cfg (i + 1) rest
         (b\<lparr>failedSignals := failedSignals b @ [symbol]\<rparr>) st1 = Some (b', st')"
      by simp
    from Cons.IH [OF this] t1 show ?thesis by simp
  next
    case Panic
    with Cons.prems g show ?thesis by simp
  qed
qed

lemma sendMessage_trace:
  "sendMessage env cfg m st = (r, st') \<Longrightarrow>
     trace st' = trace st @ [EvSend (TelegramChatID cfg) m]"
  by (auto simp: sendMessage_def split: prod.splits)

text \<open>A completed run of \<open>GenerateAllSignals\<close> delivers one text, the summary.\<close>

lemma GenerateAllSignals_sent:
  assumes "GenerateAllSignals env cfg st = Some (s, st')"
  shows "sent (trace st') = sent (trace st) @ [formatSummaryMessage s]"
proof -
  from assms obtain b st1 where
    l: "GenerateAllSignals_loop env cfg 0 (StockSymbols cfg) no_signals st = Some (b, st1)"
    and st': "st' = snd (SendSignalSummary env cfg s st1)"
    by (rule GenerateAllSignals_Some)
  have "trace st' = trace st1 @ [EvSend (TelegramChatID cfg) (formatSummaryMessage s)]"
    unfolding st' SendSignalSummary_def
    by (rule sendMessage_trace) (rule surjective_pairing)
  with loop_trace [OF l] show ?thesis
    by (simp add: sent_append)
qed

lemma GenerateAllSignals_fetched:
  assumes "GenerateAllSignals env cfg st = Some (s, st')"
  shows "fetched (trace st') = fetched (trace st) @ StockSymbols cfg"
proof -
  from assms obtain b st1 where
    l: "GenerateAllSignals_loop env cfg 0 (StockSymbols cfg) no_signals st = Some (b, st1)"
    and st': "st' = snd (SendSignalSummary env cfg s st1)"
    by (rule GenerateAllSignals_Some)
  have "trace st' = trace st1 @ [EvSend (TelegramChatID cfg) (formatSummaryMessage s)]"
    unfolding st' SendSignalSummary_def
    by (rule sendMessage_trace) (rule surjective_pairing)
  with loop_trace [OF l] show ?thesis
    by (simp add: fetched_append)
qed

subsection \<open>What the pauses of a batch run do guarantee\<close>

lemma GenerateSignal_clock:
  assumes "GenerateSignal env symbol st = (r, st')"
  shows "clock st \<le> clock st'"
proof -
  obtain f st1 where f: "FetchOHLCData env symbol st = (f, st1)"
    by (cases "FetchOHLCData env symbol st")
  then have c1: "clock st \<le> clock st1"
    by (auto simp: FetchOHLCData_def split: prod.splits)
  show ?thesis
  proof (cases f)
    case (Inl err)
    with assms f c1 show ?thesis
      by (auto simp: GenerateSignal_def)
  next
    case (Inr ohlcData)
    obtain g st2 where g: "GenerateTradingSignal env symbol ohlcData st1 = (g, st2)"
      by (cases "GenerateTradingSignal env symbol ohlcData st1")
    then have "clock st1 \<le> clock st2"
      by (auto simp: GenerateTradingSignal_def GenerateContent_def Let_def
          split: prod.splits sum.splits list.splits res.splits)
    with assms f c1 Inr g show ?thesis
      by (auto simp: GenerateSignal_def split: if_splits res.splits)
  qed
qed

text \<open>
  From index \<open>i\<close> on, the loop sleeps 3 s after every symbol that succeeds and is not the
  last one. So the time slept is at least 3 s for every symbol but one, less 3 s for
  every symbol that failed; and the clock advances by at least the time slept.
\<close>

lemma loop_slept:
  assumes "GenerateAllSignals_loop env cfg i symbols b st = Some (b', st')"
    and "i + length symbols = length (StockSymbols cfg)"
  shows "3 * Second * (int (length symbols) - 1
                       - (int (length (failedSignals b')) - int (length (failedSignals b))))
           \<le> slept (trace st') - slept (trace st)
         \<and> slept (trace st') - slept (trace st) \<le> clock st' - clock st"
  using assms
proof (induction symbols arbitrary: i b st)
  case Nil
  then show ?case by (simp add: Second_def)
next
  case (Cons symbol rest)
  obtain r st1 where g: "GenerateSignal env symbol st = (r, st1)"
    by (cases "GenerateSignal env symbol st")
  from GenerateSignal_trace [OF g] have s1: "slept (trace st1) = slept (trace st)"
    by simp
  from GenerateSignal_clock [OF g] have c1: "clock st \<le> clock st1" .
  from Cons.prems(2) have idx: "(i + 1) + length rest = length (StockSymbols cfg)"
    by simp
  show ?case
  proof (cases r)
    case (Ok signal)
    let ?st2 = "if int i < int (length (StockSymbols cfg)) - 1
                then Sleep (3 * Second) st1 else st1"
    from Cons.prems(1) g Ok have run:
      "GenerateAllSignals_loop env cfg (i + 1) rest (categorize b signal) ?st2 = Some (b', st')"
      by simp
    note ih = Cons.IH [OF run idx]
    show ?thesis
    proof (cases "rest = []")
      case True
      with run have "b' = categorize b signal" and "st' = ?st2"
        by simp_all
      moreover from True Cons.prems(2) have "\<not> int i < int (length (StockSymbols cfg)) - 1"
        by simp
      ultimately show ?thesis
        using s1 c1 True by (simp add: categorize_failed)
    next
      case False
      with Cons.prems(2) have "int i < int (length (StockSymbols cfg)) - 1"
        by (cases rest) auto
      then have st2: "?st2 = Sleep (3 * Second) st1"
        by simp
      have "slept (trace ?st2) = slept (trace st) + 3 * Second"
        and "clock ?st2 = clock st1 + 3 * Second"
        unfolding st2 using s1 by (simp_all add: Sleep_def slept_append)
      with ih c1 show ?thesis
        by (simp add: categorize_failed algebra_simps)
    qed
  next
    case (Err err)
    with Cons.prems(1) g have run:
      "GenerateAllSignals_loop env cfg (i + 1) rest
         (b\<lparr>failedSignals := failedSignals b @ [symbol]\<rparr>) st1 = Some (b', st')"
      by simp
    from Cons.IH [OF run idx] s1 c1 show ?thesis
      by (simp add: algebra_simps)
  next
    case Panic
    with Cons.prems(1) g show ?thesis by simp
  qed
qed

lemma sendMessage_clock:
  "sendMessage env cfg m st = (r, st') \<Longrightarrow> clock st \<le> clock st'"
  by (auto simp: sendMessage_def split: prod.splits)

text \<open>A completed run of either variant over \<open>N\<close> symbols, \<open>F\<close> of which failed, takes at
  least \<open>(N - 1 - F)\<close> times 3 s, whatever the latency of the remote calls.\<close>

lemma batch_elapsed_lower_bound:
  assumes "GenerateAllSignals env cfg st = Some (s, st')
           \<or> GenerateAllSignalsSummary env cfg st = Some (s, st')"
  shows "3 * Second * (int (length (StockSymbols cfg)) - 1 - int (length (FailedSignals s)))
           \<le> clock st' - clock st"
  using assms
proof
  assume "GenerateAllSignals env cfg st = Some (s, st')"
  then obtain b st1 where
    l: "GenerateAllSignals_loop env cfg 0 (StockSymbols cfg) no_signals st = Some (b, st1)"
    and s: "s = \<lparr>TotalAnalyzed = int (length (StockSymbols cfg)), BuySignals = buySignals b,
          SellSignals = sellSignals b, HoldSignals = holdSignals b,
          FailedSignals = failedSignals b, SummaryGeneratedAt = clock st1\<rparr>"
    and st': "st' = snd (SendSignalSummary env cfg s st1)"
    by (rule GenerateAllSignals_Some)
  have "clock st1 \<le> clock st'"
    unfolding st' SendSignalSummary_def
    by (rule sendMessage_clock) (rule surjective_pairing)
  with loop_slept [OF l] s show ?thesis
    by (simp add: no_signals_def)
next
  let ?st0 = "snd (SendRequestReceivedMessage env cfg (int (length (StockSymbols cfg))) st)"
  assume "GenerateAllSignalsSummary env cfg st = Some (s, st')"
  then obtain b st1 where
    l: "GenerateAllSignals_loop env cfg 0 (StockSymbols cfg) no_signals ?st0 = Some (b, st1)"
    and s: "s = \<lparr>TotalAnalyzed = int (length (StockSymbols cfg)), BuySignals = buySignals b,
          SellSignals = sellSignals b, HoldSignals = holdSignals b,
          FailedSignals = failedSignals b, SummaryGeneratedAt = clock st1\<rparr>"
    and st': "st' = snd (SendSignalSummary env cfg s st1)"
    by (rule GenerateAllSignalsSummary_Some)
  have "clock st1 \<le> clock st'"
    unfolding st' SendSignalSummary_def
    by (rule sendMessage_clock) (rule surjective_pairing)
  moreover have "clock st \<le> clock ?st0"
    unfolding SendRequestReceivedMessage_def
    by (rule sendMessage_clock) (rule surjective_pairing)
  ultimately show ?thesis
    using loop_slept [OF l] s by (simp add: no_signals_def)
qed

subsection \<open>The code at failing inputs\<close>

text \<open>
  C2. The code at the symbols D and A, where the model answers D with the text
  \<^verbatim>\<open>} {\<close>: the panic inside the inference of D ends the run of either variant; no
  summary is built, D is in no failed list and A is never analysed.
\<close>

theorem unparsable_answer_aborts_batch:
  "fst (GenerateSignal demo_env ''D'' demo_st) = Panic
   \<and> GenerateAllSignals demo_env (demo_cfg [''D'', ''A'']) demo_st = None
   \<and> GenerateAllSignalsSummary demo_env (demo_cfg [''D'', ''A'']) demo_st = None"
  by (simp add: demo_defs)

text \<open>
  C4. The code at the symbols B and A, where the quote fetch of B fails: the
  \<^verbatim>\<open>continue\<close> skips the sleep, A is the last symbol, and the run of either variant
  ends without having slept, 10 ns (11 ns with the first notice) after it began, which
  is less than the 3 s between two symbols.
\<close>

theorem failed_symbol_skips_delay:
  "map_option (\<lambda>(s, st'). (FailedSignals s, map StockSymbol (BuySignals s), slept (trace st'),
                            clock st' - clock demo_st))
     (GenerateAllSignals demo_env (demo_cfg [''B'', ''A'']) demo_st)
   = Some ([''B''], [''A''], 0, 10)
   \<and> map_option (\<lambda>(s, st'). (FailedSignals s, map StockSymbol (BuySignals s),
                              slept (trace st'), clock st' - clock demo_st))
       (GenerateAllSignalsSummary demo_env (demo_cfg [''B'', ''A'']) demo_st)
     = Some ([''B''], [''A''], 0, 11)
   \<and> (10 :: int) < (2 - 1) * (3 * Second) \<and> (11 :: int) < (2 - 1) * (3 * Second)"
  by (simp add: demo_defs)

text \<open>
  C6. The code at the single symbol A, for which a BUY signal is generated: the run of
  \<open>GenerateAllSignals\<close> delivers one text, the summary; the formatted signal of A is not
  delivered.
\<close>

theorem bulk_run_delivers_summary_only:
  "map_option (\<lambda>(s, st'). (map StockSymbol (BuySignals s), sent (trace st')))
     (GenerateAllSignals demo_env (demo_cfg [''A'']) demo_st)
   = Some ([''A''],
           [[SummaryHeader 1 1 0 0 0 7, BuyHeader, BuyLine ''A'' 80 100 120 90 (Some 2),
             SummaryFooter]])"
  by (simp add: demo_defs formatSummaryMessage_def calculateRiskRewardRatio_def)

section \<open>Scheduler start\<close>

















end
